theory Spec2Isabelle
  imports Main "HOL-Library.AList"
begin

section \<open>Crystal filter middleware: data model\<close>

text \<open>
  The embedding follows \<^verbatim>\<open>crystal_filter_control.py\<close> and \<^verbatim>\<open>handlers/base.py\<close>.
  A Python dict whose iteration order or serialisation matters (a filter set, the
  metadata of one filter) is an association list with distinct keys; \<^verbatim>\<open>d[k] = v\<close> is
  \<^const>\<open>AList.update\<close>, \<^verbatim>\<open>d[k]\<close> is \<^const>\<open>map_of\<close> with a \<^verbatim>\<open>KeyError\<close> for a
  missing key. Headers, the WSGI environment and the configuration are maps. Ordering keys
  are Python integers. Objects of external collaborators that the code only passes on
  (body streams, the storlet gateway, a native filter instance, the WSGI application) are
  references of one opaque type \<open>'o\<close>. A character is a code point below 256.
\<close>

datatype exn =
    NotCrystalRequest
  | ValueError
  | KeyError string
  | Raised string

type_synonym filter_data = "(string \<times> string) list"

type_synonym filter_list = "(int \<times> filter_data) list"

datatype 'o env_value = EStr string | EStream "'o option"

record 'o request =
  req_path :: string
  req_method :: string
  req_headers :: "string \<rightharpoonup> string"
  req_environ :: "string \<rightharpoonup> 'o env_value"

record 'o response =
  resp_headers :: "string \<rightharpoonup> string"
  resp_app_iter :: "'o option"

datatype 'o req_resp = Req "'o request" | Resp "'o response"

record 'o requets_data =
  rd_app :: 'o
  rd_api_version :: "string option"
  rd_account :: "string option"
  rd_container :: "string option"
  rd_object :: "string option"
  rd_method :: string

text \<open>
  The execution engines are outside the repository; the controller is given them. Each
  may raise (\<open>Inl\<close>) or return (\<open>Inr\<close>):
  \<^item> \<open>setup_storlet_gateway conf request_data\<close> is \<^verbatim>\<open>SDSGatewayStorlet(conf, logger, request_data)\<close>;
  \<^item> \<open>execute_storlet gw req_resp filter_data app_iter\<close> is the gateway's method;
  \<^item> \<open>instantiate_native module classname filter_data conf\<close> is the import of the module, the
    lookup of the class and its construction;
  \<^item> \<open>native_execute nf req_resp app_iter request_data\<close> is the native filter's \<^verbatim>\<open>execute\<close>.
\<close>

record 'o engines =
  setup_storlet_gateway :: "(string \<rightharpoonup> string) \<Rightarrow> 'o requets_data \<Rightarrow> exn + 'o"
  execute_storlet :: "'o \<Rightarrow> 'o req_resp \<Rightarrow> filter_data \<Rightarrow> 'o option \<Rightarrow> exn + 'o option"
  instantiate_native :: "string \<Rightarrow> string \<Rightarrow> filter_data \<Rightarrow> (string \<rightharpoonup> string) \<Rightarrow> exn + 'o"
  native_execute :: "'o \<Rightarrow> 'o req_resp \<Rightarrow> 'o option \<Rightarrow> 'o requets_data \<Rightarrow> exn + 'o option"

text \<open>\<^verbatim>\<open>CrystalFilterControl.__init__\<close>: the configuration and \<^verbatim>\<open>conf.get('execution_server')\<close>.\<close>

record filter_control =
  fc_conf :: "string \<rightharpoonup> string"
  fc_server :: "string option"

definition CrystalFilterControl :: "(string \<rightharpoonup> string) \<Rightarrow> filter_control" where
  "CrystalFilterControl conf = \<lparr>fc_conf = conf, fc_server = conf ''execution_server''\<rparr>"

text \<open>
  One engine invocation, as an observer of the engine would log it: the key and metadata of
  the filter, the stream handed in and what the engine answered.
\<close>

record 'o call =
  c_key :: int
  c_filter :: filter_data
  c_input :: "'o option"
  c_result :: "exn + 'o option"

text \<open>The local variables of \<^verbatim>\<open>execute_filters\<close>, and the log of engine invocations.\<close>

record 'o loop_state =
  on_other_server :: filter_list
  filter_executed :: bool
  storlet_gw :: "'o option"
  app_iter :: "'o option"
  invoked :: "'o call list"

section \<open>The filter execution controller\<close>

definition PACKAGE_NAME :: string where
  "PACKAGE_NAME = ''crystal_filter_middleware''"

text \<open>\<^verbatim>\<open>s.rsplit('.', 1)\<close> unpacked into two names: \<open>None\<close> when \<open>s\<close> has no dot.\<close>

fun rsplit_dot :: "string \<Rightarrow> (string \<times> string) option" where
  "rsplit_dot [] = None"
| "rsplit_dot (c # cs) =
     (case rsplit_dot cs of
        Some (m, cl) \<Rightarrow> Some (c # m, cl)
      | None \<Rightarrow> if c = CHR ''.'' then Some ([], cs) else None)"

definition load_native_filter ::
  "'o engines \<Rightarrow> filter_control \<Rightarrow> filter_data \<Rightarrow> exn + 'o" where
  "load_native_filter eng fc filter_data =
     (case map_of filter_data ''main'' of
        None \<Rightarrow> Inl (KeyError ''main'')
      | Some m \<Rightarrow>
          (case rsplit_dot m of
             None \<Rightarrow> Inl ValueError
           | Some (modulename, classname) \<Rightarrow>
               instantiate_native eng (PACKAGE_NAME @ ''.'' @ modulename) classname
                 filter_data (fc_conf fc)))"

text \<open>
  The body of the \<^verbatim>\<open>for key in sorted(filter_exec_list)\<close> loop. It returns the local
  variables after the iteration and the exception that left it, if one did.
\<close>

definition record_call ::
  "int \<Rightarrow> filter_data \<Rightarrow> exn + 'o option \<Rightarrow> 'o loop_state \<Rightarrow> 'o loop_state" where
  "record_call key filter_data res st =
     st\<lparr>invoked := invoked st @
        [\<lparr>c_key = key, c_filter = filter_data, c_input = app_iter st, c_result = res\<rparr>]\<rparr>"

definition finish_call ::
  "int \<Rightarrow> filter_data \<Rightarrow> exn + 'o option \<Rightarrow> 'o loop_state \<Rightarrow> 'o loop_state \<times> exn option" where
  "finish_call key filter_data res st =
     (case res of
        Inl e \<Rightarrow> (record_call key filter_data res st, Some e)
      | Inr out \<Rightarrow>
          ((record_call key filter_data res st)\<lparr>app_iter := out, filter_executed := True\<rparr>,
           None))"

definition loop_body ::
  "'o engines \<Rightarrow> filter_control \<Rightarrow> 'o requets_data \<Rightarrow> 'o req_resp \<Rightarrow> filter_list \<Rightarrow>
   int \<Rightarrow> 'o loop_state \<Rightarrow> 'o loop_state \<times> exn option" where
  "loop_body eng fc requets_data req_resp filter_exec_list key st =
     (case map_of filter_exec_list key of
        None \<Rightarrow> (st, Some (KeyError ''key''))
      | Some filter_data \<Rightarrow>
          (case map_of filter_data ''execution_server'' of
             None \<Rightarrow> (st, Some (KeyError ''execution_server''))
           | Some server \<Rightarrow>
               if Some server = fc_server fc then
                 (case map_of filter_data ''type'' of
                    None \<Rightarrow> (st, Some (KeyError ''type''))
                  | Some ty \<Rightarrow>
                      if ty = ''storlet'' then
                        (case (case storlet_gw st of
                                 None \<Rightarrow> setup_storlet_gateway eng (fc_conf fc) requets_data
                               | Some gw \<Rightarrow> Inr gw) of
                           Inl e \<Rightarrow> (st, Some e)
                         | Inr gw \<Rightarrow>
                             finish_call key filter_data
                               (execute_storlet eng gw req_resp filter_data (app_iter st))
                               (st\<lparr>storlet_gw := Some gw\<rparr>))
                      else
                        (case load_native_filter eng fc filter_data of
                           Inl e \<Rightarrow> (st, Some e)
                         | Inr native_filter \<Rightarrow>
                             finish_call key filter_data
                               (native_execute eng native_filter req_resp (app_iter st)
                                  requets_data)
                               st))
               else
                 (st\<lparr>on_other_server := AList.update key filter_data (on_other_server st)\<rparr>,
                  None)))"

fun for_keys ::
  "(int \<Rightarrow> 'st \<Rightarrow> 'st \<times> exn option) \<Rightarrow> int list \<Rightarrow> 'st \<Rightarrow> 'st \<times> exn option" where
  "for_keys body [] st = (st, None)"
| "for_keys body (key # keys) st =
     (case body key st of
        (st', Some e) \<Rightarrow> (st', Some e)
      | (st', None) \<Rightarrow> for_keys body keys st')"

definition initial_state :: "'o loop_state" where
  "initial_state =
     \<lparr>on_other_server = [], filter_executed = False, storlet_gw = None, app_iter = None,
      invoked = []\<rparr>"

definition make_requets_data ::
  "'o \<Rightarrow> string option \<Rightarrow> string option \<Rightarrow> string option \<Rightarrow> string option \<Rightarrow> string \<Rightarrow>
   'o requets_data" where
  "make_requets_data app api_version account container obj method =
     \<lparr>rd_app = app, rd_api_version = api_version, rd_account = account,
      rd_container = container, rd_object = obj, rd_method = method\<rparr>"

definition filter_loop ::
  "'o engines \<Rightarrow> filter_control \<Rightarrow> 'o requets_data \<Rightarrow> 'o req_resp \<Rightarrow> filter_list \<Rightarrow>
   'o loop_state \<times> exn option" where
  "filter_loop eng fc requets_data req_resp filter_exec_list =
     for_keys (loop_body eng fc requets_data req_resp filter_exec_list)
       (sort (map fst filter_exec_list)) initial_state"


subsection \<open>The delegation header: \<^verbatim>\<open>json.dumps\<close>\<close>

text \<open>
  \<^verbatim>\<open>json.dumps\<close> with its default arguments, on the values the controller gives it: a dict
  from integer keys to dicts from strings to strings. Integer keys are written as their
  decimal strings; members are separated by a comma and a space, a key from its member by a
  colon and a space; a string is quoted, with a backslash escape for the quote, the
  backslash and every character outside the printable ASCII range.
\<close>

definition digit_char :: "nat \<Rightarrow> char" where
  "digit_char d = char_of (48 + d)"

fun digits :: "nat \<Rightarrow> string" where
  "digits n = (if n < 10 then [digit_char n] else digits (n div 10) @ [digit_char (n mod 10)])"

declare digits.simps [simp del]

definition str_int :: "int \<Rightarrow> string" where
  "str_int i = (if i < 0 then CHR ''-'' # digits (nat (- i)) else digits (nat i))"

definition hex_char :: "nat \<Rightarrow> char" where
  "hex_char d = (if d < 10 then char_of (48 + d) else char_of (87 + d))"

definition json_escape :: "char \<Rightarrow> string" where
  "json_escape c =
     (if c = CHR 0x22 then [CHR 0x5C, CHR 0x22]
      else if c = CHR 0x5C then [CHR 0x5C, CHR 0x5C]
      else if c = CHR 0x08 then [CHR 0x5C, CHR ''b'']
      else if c = CHR 0x0C then [CHR 0x5C, CHR ''f'']
      else if c = CHR 0x0A then [CHR 0x5C, CHR ''n'']
      else if c = CHR 0x0D then [CHR 0x5C, CHR ''r'']
      else if c = CHR 0x09 then [CHR 0x5C, CHR ''t'']
      else if (of_char c :: nat) < 32 \<or> 126 < (of_char c :: nat) then
        [CHR 0x5C, CHR ''u'', CHR ''0'', CHR ''0'',
         hex_char (of_char c div 16), hex_char (of_char c mod 16)]
      else [c])"

definition json_string :: "string \<Rightarrow> string" where
  "json_string s = [CHR 0x22] @ concat (map json_escape s) @ [CHR 0x22]"

fun join_members :: "string list \<Rightarrow> string" where
  "join_members [] = []"
| "join_members [m] = m"
| "join_members (m # ms) = m @ '', '' @ join_members ms"

definition json_object :: "(string \<times> string) list \<Rightarrow> string" where
  "json_object members =
     ''{'' @ join_members (map (\<lambda>(k, v). k @ '': '' @ v) members) @ ''}''"

definition json_dumps :: "filter_list \<Rightarrow> string" where
  "json_dumps d =
     json_object (map (\<lambda>(key, filter_data).
        (json_string (str_int key),
         json_object (map (\<lambda>(k, v). (json_string k, json_string v)) filter_data))) d)"

subsection \<open>\<^verbatim>\<open>execute_filters\<close>\<close>

definition set_header :: "string \<Rightarrow> string \<Rightarrow> 'o req_resp \<Rightarrow> 'o req_resp" where
  "set_header name v req_resp =
     (case req_resp of
        Req r \<Rightarrow> Req (r\<lparr>req_headers := (req_headers r)(name \<mapsto> v)\<rparr>)
      | Resp p \<Rightarrow> Resp (p\<lparr>resp_headers := (resp_headers p)(name \<mapsto> v)\<rparr>))"

text \<open>
  \<^verbatim>\<open>isinstance(req_resp, Request)\<close> chooses the stream reference that receives the composed
  output: \<^verbatim>\<open>environ['wsgi.input']\<close> of a request, \<^verbatim>\<open>app_iter\<close> of anything else.
\<close>

definition set_body :: "'o option \<Rightarrow> 'o req_resp \<Rightarrow> 'o req_resp" where
  "set_body it req_resp =
     (case req_resp of
        Req r \<Rightarrow> Req (r\<lparr>req_environ := (req_environ r)(''wsgi.input'' \<mapsto> EStream it)\<rparr>)
      | Resp p \<Rightarrow> Resp (p\<lparr>resp_app_iter := it\<rparr>))"

text \<open>
  The result is the exception that left the call or the object returned, together with the
  log of the engine invocations made. The object is only touched after the loop, so a call
  that raises leaves it as it was.
\<close>

definition execute_filters ::
  "'o engines \<Rightarrow> filter_control \<Rightarrow> 'o req_resp \<Rightarrow> filter_list \<Rightarrow> 'o \<Rightarrow>
   string option \<Rightarrow> string option \<Rightarrow> string option \<Rightarrow> string option \<Rightarrow> string \<Rightarrow>
   (exn + 'o req_resp) \<times> 'o call list" where
  "execute_filters eng fc req_resp filter_exec_list app api_version account container obj
     method =
     (let requets_data = make_requets_data app api_version account container obj method;
          (st, raised) = filter_loop eng fc requets_data req_resp filter_exec_list
      in case raised of
           Some e \<Rightarrow> (Inl e, invoked st)
         | None \<Rightarrow>
             (let r1 = (if on_other_server st \<noteq> []
                        then set_header ''CRYSTAL-FILTERS'' (json_dumps (on_other_server st))
                               req_resp
                        else req_resp);
                  r2 = (if filter_executed st then set_body (app_iter st) r1 else r1)
              in (Inr r2, invoked st)))"

section \<open>The request handler\<close>

text \<open>
  A handler holds the request and the fields parsed from its path. \<^verbatim>\<open>_parse_vaco\<close> is
  left to the proxy and object subclasses, and the account lookup and
  \<^verbatim>\<open>config_true_value\<close> belong to the storage system: the handler is given them. A parse
  that raises \<^verbatim>\<open>ValueError\<close> is \<open>None\<close>. A path component may be Python's \<^verbatim>\<open>None\<close>.
  The logger, the Redis client and its settings take no part in the operations below.
\<close>

type_synonym vaco = "string option \<times> string option \<times> string option \<times> string option"

record 'o collaborators =
  parse_vaco :: "string \<Rightarrow> vaco option"
  get_account_meta :: "(string \<rightharpoonup> 'o env_value) \<Rightarrow> 'o \<Rightarrow> (string \<rightharpoonup> string)"
  config_true_value :: "string \<Rightarrow> bool"

record 'o handler =
  h_request :: "'o request"
  h_api_version :: "string option"
  h_account :: "string option"
  h_container :: "string option"
  h_obj :: "string option"
  h_server :: "string option"
  h_sds_containers :: "string option list"
  h_app :: 'o
  h_conf :: "string \<rightharpoonup> string"
  h_filter_control :: filter_control
  h_method :: string

definition lower_char :: "char \<Rightarrow> char" where
  "lower_char c =
     (if 65 \<le> (of_char c :: nat) \<and> (of_char c :: nat) \<le> 90 then char_of (of_char c + 32 :: nat)
      else c)"

definition lower :: "string \<Rightarrow> string" where
  "lower s = map lower_char s"

text \<open>\<^verbatim>\<open>_extract_vaco\<close>: the four fields are bound together, or \<^verbatim>\<open>ValueError\<close> is raised.\<close>

definition extract_vaco :: "'o collaborators \<Rightarrow> 'o handler \<Rightarrow> exn + 'o handler" where
  "extract_vaco col h =
     (case parse_vaco col (req_path (h_request h)) of
        None \<Rightarrow> Inl ValueError
      | Some (v, a, c, ob) \<Rightarrow>
          Inr (h\<lparr>h_api_version := v, h_account := a, h_container := c, h_obj := ob\<rparr>))"

text \<open>
  The setter of the \<^verbatim>\<open>request\<close> property: it stores the request, then parses. The handler
  after the assignment is returned with the exception, if one was raised.
\<close>

definition request_setter ::
  "'o collaborators \<Rightarrow> 'o handler \<Rightarrow> 'o request \<Rightarrow> 'o handler \<times> exn option" where
  "request_setter col h request =
     (let h1 = h\<lparr>h_request := request\<rparr>
      in case extract_vaco col h1 of
           Inl e \<Rightarrow> (h1, Some NotCrystalRequest)
         | Inr h2 \<Rightarrow> (h2, None))"

text \<open>
  \<^verbatim>\<open>__init__\<close> runs the setter on the new object first; when the setter raises, the
  constructor raises and no handler comes to exist.
\<close>

definition init ::
  "'o collaborators \<Rightarrow> 'o request \<Rightarrow> (string \<rightharpoonup> string) \<Rightarrow> 'o \<Rightarrow> filter_control \<Rightarrow>
   exn + 'o handler" where
  "init col request conf app filter_control =
     (case parse_vaco col (req_path request) of
        None \<Rightarrow> Inl NotCrystalRequest
      | Some (v, a, c, ob) \<Rightarrow>
          Inr \<lparr>h_request = request, h_api_version = v, h_account = a, h_container = c,
               h_obj = ob, h_server = conf ''execution_server'',
               h_sds_containers =
                 [conf ''storlet_container'', conf ''storlet_dependency'',
                  Some (case conf ''storlet_images'' of
                          None \<Rightarrow> ''docker_images'' | Some x \<Rightarrow> x)],
               h_app = app, h_conf = conf, h_filter_control = filter_control,
               h_method = lower (req_method request)\<rparr>)"

subsection \<open>Eligibility\<close>

definition is_account_storlet_enabled :: "'o collaborators \<Rightarrow> 'o handler \<Rightarrow> bool" where
  "is_account_storlet_enabled col h =
     (let account_meta = get_account_meta col (req_environ (h_request h)) (h_app h);
          storlets_enabled =
            (case account_meta ''storlet-enabled'' of None \<Rightarrow> ''False'' | Some x \<Rightarrow> x)
      in if \<not> config_true_value col storlets_enabled then False else True)"

text \<open>
  The property returns the value of a Python \<^verbatim>\<open>and\<close> chain: the first operand that is
  false, or the last operand.
\<close>

datatype pyvalue = PyBool bool | PyStr string | PyNone

fun truthy :: "pyvalue \<Rightarrow> bool" where
  "truthy (PyBool b) = b"
| "truthy (PyStr s) = (s \<noteq> [])"
| "truthy PyNone = False"

definition py_of_str :: "string option \<Rightarrow> pyvalue" where
  "py_of_str x = (case x of None \<Rightarrow> PyNone | Some s \<Rightarrow> PyStr s)"

definition is_crystal_valid_request :: "'o collaborators \<Rightarrow> 'o handler \<Rightarrow> pyvalue" where
  "is_crystal_valid_request col h =
     (let storlet_enabled =
            (if h_server h = Some ''proxy'' then is_account_storlet_enabled col h else True);
          crystal_container = (h_container h \<in> set (h_sds_containers h))
      in if \<not> (\<not> crystal_container) then PyBool (\<not> crystal_container)
         else if \<not> truthy (py_of_str (h_obj h)) then py_of_str (h_obj h)
         else PyBool storlet_enabled)"

subsection \<open>The lifecycle hooks\<close>

definition call_filter_control_on_put ::
  "'o engines \<Rightarrow> 'o handler \<Rightarrow> filter_list \<Rightarrow> (exn + 'o req_resp) \<times> 'o call list" where
  "call_filter_control_on_put eng h filter_list =
     execute_filters eng (h_filter_control h) (Req (h_request h)) filter_list (h_app h)
       (h_api_version h) (h_account h) (h_container h) (h_obj h) (h_method h)"

definition call_filter_control_on_get ::
  "'o engines \<Rightarrow> 'o handler \<Rightarrow> 'o req_resp \<Rightarrow> filter_list \<Rightarrow>
   (exn + 'o req_resp) \<times> 'o call list" where
  "call_filter_control_on_get eng h req_resp filter_list =
     execute_filters eng (h_filter_control h) req_resp filter_list (h_app h)
       (h_api_version h) (h_account h) (h_container h) (h_obj h) (h_method h)"

text \<open>
  The selection loop of the three hooks: the filters of \<open>filter_list\<close> whose \<^verbatim>\<open>'when'\<close> is
  the lifecycle point, in the order the dict yields them.
\<close>

fun select_when :: "string \<Rightarrow> filter_list \<Rightarrow> filter_list \<Rightarrow> exn + filter_list" where
  "select_when point [] filtered_filter_list = Inr filtered_filter_list"
| "select_when point ((key, filter_data) # rest) filtered_filter_list =
     (case map_of filter_data ''when'' of
        None \<Rightarrow> Inl (KeyError ''when'')
      | Some w \<Rightarrow>
          select_when point rest
            (if w = point then AList.update key filter_data filtered_filter_list
             else filtered_filter_list))"

text \<open>
  \<^const>\<open>execute_filters\<close> returns the object it was given, mutated; \<open>as_request\<close> reads it
  back as the request it is. Its second argument is never used.
\<close>

definition as_request :: "'o req_resp \<Rightarrow> 'o request \<Rightarrow> 'o request" where
  "as_request req_resp r = (case req_resp of Req r' \<Rightarrow> r' | Resp p \<Rightarrow> r)"

text \<open>
  A hook returns the handler after it ran, the exception that left it (if any) and the
  engine invocations made; \<^verbatim>\<open>apply_filters_on_post_get\<close> returns the response instead
  of the handler, which it only reads.
\<close>

definition apply_filters_on_pre_get ::
  "'o engines \<Rightarrow> 'o handler \<Rightarrow> filter_list \<Rightarrow> 'o handler \<times> exn option \<times> 'o call list" where
  "apply_filters_on_pre_get eng h filter_list =
     (case select_when ''on_pre_get'' filter_list [] of
        Inl e \<Rightarrow> (h, Some e, [])
      | Inr filtered_filter_list \<Rightarrow>
          if filtered_filter_list \<noteq> [] then
            (case call_filter_control_on_get eng h (Req (h_request h)) filtered_filter_list of
               (Inl e, log) \<Rightarrow> (h, Some e, log)
             | (Inr r, log) \<Rightarrow> (h\<lparr>h_request := as_request r (h_request h)\<rparr>, None, log))
          else (h, None, []))"

definition apply_filters_on_post_get ::
  "'o engines \<Rightarrow> 'o handler \<Rightarrow> 'o req_resp \<Rightarrow> filter_list \<Rightarrow>
   (exn + 'o req_resp) \<times> 'o call list" where
  "apply_filters_on_post_get eng h resp filter_list =
     (case select_when ''on_post_get'' filter_list [] of
        Inl e \<Rightarrow> (Inl e, [])
      | Inr filtered_filter_list \<Rightarrow>
          if filtered_filter_list \<noteq> [] then
            call_filter_control_on_get eng h resp filtered_filter_list
          else (Inr resp, []))"

definition drop_content_length :: "'o request \<Rightarrow> 'o request" where
  "drop_content_length r =
     (let r1 = (if ''CONTENT_LENGTH'' \<in> dom (req_environ r)
                then r\<lparr>req_environ := (req_environ r)(''CONTENT_LENGTH'' := None)\<rparr>
                else r)
      in r1\<lparr>req_headers := (req_headers r1)(''Transfer-Encoding'' \<mapsto> ''chunked'')\<rparr>)"

definition apply_filters_on_pre_put ::
  "'o collaborators \<Rightarrow> 'o engines \<Rightarrow> 'o handler \<Rightarrow> filter_list \<Rightarrow>
   'o handler \<times> exn option \<times> 'o call list" where
  "apply_filters_on_pre_put col eng h filter_list =
     (case select_when ''on_pre_put'' filter_list [] of
        Inl e \<Rightarrow> (h, Some e, [])
      | Inr filtered_filter_list \<Rightarrow>
          if filtered_filter_list \<noteq> [] then
            (case call_filter_control_on_put eng h filtered_filter_list of
               (Inl e, log) \<Rightarrow> (h, Some e, log)
             | (Inr r, log) \<Rightarrow>
                 (case request_setter col h (as_request r (h_request h)) of
                    (h1, Some e) \<Rightarrow> (h1, Some e, log)
                  | (h1, None) \<Rightarrow>
                      (h1\<lparr>h_request := drop_content_length (h_request h1)\<rparr>, None, log)))
          else (h, None, []))"

section \<open>The peer's reading of the delegation header\<close>

text \<open>
  Modelled from the spec: the decoding of the delegation header by the peer tier, whose
  code is not among the sources. The header value is a JSON-compatible encoding of the map
  from ordering keys to filters; the peer reads it back into a filter set keyed by ordering
  keys. The reader accepts a JSON object whose member names are decimal integers and whose
  members are objects from strings to strings; a later member of the same name replaces
  an earlier one.
\<close>

definition is_space :: "char \<Rightarrow> bool" where
  "is_space c = (c = CHR 0x20 \<or> c = CHR 0x09 \<or> c = CHR 0x0A \<or> c = CHR 0x0D)"

definition skip_ws :: "string \<Rightarrow> string" where
  "skip_ws s = dropWhile is_space s"

definition expect :: "char \<Rightarrow> string \<Rightarrow> string option" where
  "expect c s = (case skip_ws s of [] \<Rightarrow> None | x # r \<Rightarrow> if x = c then Some r else None)"

definition hex_value :: "char \<Rightarrow> nat option" where
  "hex_value c =
     (let n = (of_char c :: nat)
      in if 48 \<le> n \<and> n \<le> 57 then Some (n - 48)
         else if 97 \<le> n \<and> n \<le> 102 then Some (n - 87)
         else if 65 \<le> n \<and> n \<le> 70 then Some (n - 55)
         else None)"

definition code_point :: "char \<Rightarrow> char \<Rightarrow> char \<Rightarrow> char \<Rightarrow> char option" where
  "code_point a b c d =
     (case (hex_value a, hex_value b, hex_value c, hex_value d) of
        (Some x, Some y, Some z, Some w) \<Rightarrow>
          if x = 0 \<and> y = 0 then Some (char_of (16 * z + w)) else None
      | _ \<Rightarrow> None)"

definition json_unescape :: "char \<Rightarrow> char option" where
  "json_unescape e =
     (if e = CHR 0x22 then Some (CHR 0x22)
      else if e = CHR 0x5C then Some (CHR 0x5C)
      else if e = CHR ''/'' then Some (CHR ''/'')
      else if e = CHR ''b'' then Some (CHR 0x08)
      else if e = CHR ''f'' then Some (CHR 0x0C)
      else if e = CHR ''n'' then Some (CHR 0x0A)
      else if e = CHR ''r'' then Some (CHR 0x0D)
      else if e = CHR ''t'' then Some (CHR 0x09)
      else None)"

definition cons_char :: "char \<Rightarrow> (string \<times> string) option \<Rightarrow> (string \<times> string) option" where
  "cons_char c r = (case r of None \<Rightarrow> None | Some (s, rest) \<Rightarrow> Some (c # s, rest))"

text \<open>The characters of a string after its opening quote, up to the closing one.\<close>

fun read_string_body :: "string \<Rightarrow> (string \<times> string) option" where
  "read_string_body [] = None"
| "read_string_body [c] = (if c = CHR 0x22 then Some ([], []) else None)"
| "read_string_body (c # e # r) =
     (if c = CHR 0x22 then Some ([], e # r)
      else if c = CHR 0x5C then
        (if e = CHR ''u'' then
           (case r of
              a # b # x # y # r' \<Rightarrow>
                (case code_point a b x y of
                   None \<Rightarrow> None
                 | Some ch \<Rightarrow> cons_char ch (read_string_body r'))
            | _ \<Rightarrow> None)
         else
           (case json_unescape e of
              None \<Rightarrow> None
            | Some ch \<Rightarrow> cons_char ch (read_string_body r)))
      else cons_char c (read_string_body (e # r)))"

definition read_string :: "string \<Rightarrow> (string \<times> string) option" where
  "read_string s = (case expect (CHR 0x22) s of None \<Rightarrow> None | Some r \<Rightarrow> read_string_body r)"

text \<open>
  The members of an object after its opening brace, up to the closing one. The first
  argument bounds the number of members read; the length of the text is always enough.
\<close>

fun read_members ::
  "nat \<Rightarrow> (string \<Rightarrow> ('v \<times> string) option) \<Rightarrow> string \<Rightarrow> ((string \<times> 'v) list \<times> string) option"
  where
  "read_members 0 read_value s = None"
| "read_members (Suc n) read_value s =
     (case read_string s of
        None \<Rightarrow> None
      | Some (k, r1) \<Rightarrow>
          (case expect (CHR '':'') r1 of
             None \<Rightarrow> None
           | Some r2 \<Rightarrow>
               (case read_value r2 of
                  None \<Rightarrow> None
                | Some (v, r3) \<Rightarrow>
                    (case expect (CHR '','') r3 of
                       Some r4 \<Rightarrow>
                         (case read_members n read_value r4 of
                            None \<Rightarrow> None
                          | Some (ms, r5) \<Rightarrow> Some ((k, v) # ms, r5))
                     | None \<Rightarrow>
                         (case expect (CHR ''}'') r3 of
                            None \<Rightarrow> None
                          | Some r4 \<Rightarrow> Some ([(k, v)], r4))))))"

definition read_object ::
  "nat \<Rightarrow> (string \<Rightarrow> ('v \<times> string) option) \<Rightarrow> string \<Rightarrow> ((string \<times> 'v) list \<times> string) option"
  where
  "read_object n read_value s =
     (case expect (CHR ''{'') s of
        None \<Rightarrow> None
      | Some r \<Rightarrow>
          (case expect (CHR ''}'') r of
             Some r' \<Rightarrow> Some ([], r')
           | None \<Rightarrow> read_members n read_value r))"

fun read_digits :: "nat \<Rightarrow> string \<Rightarrow> nat option" where
  "read_digits acc [] = Some acc"
| "read_digits acc (c # cs) =
     (if 48 \<le> (of_char c :: nat) \<and> (of_char c :: nat) \<le> 57
      then read_digits (10 * acc + (of_char c - 48)) cs
      else None)"

definition read_int :: "string \<Rightarrow> int option" where
  "read_int s =
     (case s of
        [] \<Rightarrow> None
      | c # cs \<Rightarrow>
          if c = CHR ''-'' then
            (if cs = [] then None else map_option (\<lambda>n. - int n) (read_digits 0 cs))
          else map_option int (read_digits 0 s))"

fun keyed_by_int :: "(string \<times> filter_data) list \<Rightarrow> filter_list \<Rightarrow> filter_list option" where
  "keyed_by_int [] acc = Some acc"
| "keyed_by_int ((k, filter_data) # ms) acc =
     (case read_int k of
        None \<Rightarrow> None
      | Some key \<Rightarrow> keyed_by_int ms (AList.update key filter_data acc))"

definition as_dict :: "(string \<times> string) list \<Rightarrow> filter_data" where
  "as_dict ms = fold (\<lambda>(k, v). AList.update k v) ms []"

definition read_filter :: "nat \<Rightarrow> string \<Rightarrow> (filter_data \<times> string) option" where
  "read_filter n s = map_option (\<lambda>(ms, r). (as_dict ms, r)) (read_object n read_string s)"

definition decode_delegation :: "string \<Rightarrow> filter_list option" where
  "decode_delegation s =
     (case read_object (length s) (read_filter (length s)) s of
        None \<Rightarrow> None
      | Some (ms, rest) \<Rightarrow> if skip_ws rest = [] then keyed_by_int ms [] else None)"

section \<open>Observations on a run\<close>

text \<open>A filter is local when its \<^verbatim>\<open>execution_server\<close> is the controller's own server.\<close>

definition is_local :: "filter_control \<Rightarrow> filter_data \<Rightarrow> bool" where
  "is_local fc filter_data =
     (case map_of filter_data ''execution_server'' of
        None \<Rightarrow> False
      | Some server \<Rightarrow> Some server = fc_server fc)"

definition local_key :: "filter_control \<Rightarrow> filter_list \<Rightarrow> int \<Rightarrow> bool" where
  "local_key fc d key = (case map_of d key of None \<Rightarrow> False | Some fd \<Rightarrow> is_local fc fd)"

definition succeeded :: "'o call \<Rightarrow> bool" where
  "succeeded c = (case c_result c of Inl e \<Rightarrow> False | Inr out \<Rightarrow> True)"

text \<open>
  A log is chained from a stream when every invocation is handed the output of the one
  before it (the first one the given stream) and nothing follows an invocation that raised;
  \<open>final_stream\<close> is the output of the last invocation that returned.
\<close>

fun chained :: "'o option \<Rightarrow> 'o call list \<Rightarrow> bool" where
  "chained i [] = True"
| "chained i (c # cs) =
     (c_input c = i \<and> (case c_result c of Inl e \<Rightarrow> cs = [] | Inr out \<Rightarrow> chained out cs))"

fun final_stream :: "'o option \<Rightarrow> 'o call list \<Rightarrow> 'o option" where
  "final_stream i [] = i"
| "final_stream i (c # cs) =
     (case c_result c of Inl e \<Rightarrow> i | Inr out \<Rightarrow> final_stream out cs)"

definition header_of :: "string \<Rightarrow> 'o req_resp \<Rightarrow> string option" where
  "header_of name req_resp =
     (case req_resp of Req r \<Rightarrow> req_headers r name | Resp p \<Rightarrow> resp_headers p name)"

section \<open>A concrete deployment\<close>

text \<open>
  A proxy-tier deployment on which the properties below are exercised: opaque objects are
  numbers, paths have the form \<^verbatim>\<open>/version/account/container/object\<close>, storlet and native
  engines answer with a fresh stream derived from their input, and a second set of engines
  whose storlet gateway raises on every execution.
\<close>

definition example_conf :: "string \<rightharpoonup> string" where
  "example_conf =
     [''execution_server'' \<mapsto> ''proxy'', ''storlet_container'' \<mapsto> ''storlet'',
      ''storlet_dependency'' \<mapsto> ''dependency'']"

fun segment :: "string \<Rightarrow> string \<times> string option" where
  "segment [] = ([], None)"
| "segment (c # cs) =
     (if c = CHR ''/'' then ([], Some cs)
      else (case segment cs of (seg, rest) \<Rightarrow> (c # seg, rest)))"

definition example_parse :: "string \<Rightarrow> vaco option" where
  "example_parse p =
     (case segment p of
        ([], Some r0) \<Rightarrow>
          (case segment r0 of
             (v, Some r1) \<Rightarrow>
               (case segment r1 of
                  (a, Some r2) \<Rightarrow>
                    (case segment r2 of
                       (c, Some ob) \<Rightarrow>
                         if v = [] \<or> a = [] \<or> c = [] then None
                         else Some (Some v, Some a, Some c, Some ob)
                     | _ \<Rightarrow> None)
                | _ \<Rightarrow> None)
           | _ \<Rightarrow> None)
      | _ \<Rightarrow> None)"

definition example_col :: "nat collaborators" where
  "example_col =
     \<lparr>parse_vaco = example_parse,
      get_account_meta = (\<lambda>env app. [''storlet-enabled'' \<mapsto> ''True'']),
      config_true_value =
        (\<lambda>s. lower s \<in> set [''true'', ''1'', ''yes'', ''on'', ''t'', ''y''])\<rparr>"

definition next_stream :: "nat \<Rightarrow> nat option \<Rightarrow> nat option" where
  "next_stream tag it = Some (case it of None \<Rightarrow> tag | Some n \<Rightarrow> 10 * n + tag)"

definition example_engines :: "nat engines" where
  "example_engines =
     \<lparr>setup_storlet_gateway = (\<lambda>conf rd. Inr 7),
      execute_storlet = (\<lambda>gw r fd it. Inr (next_stream 1 it)),
      instantiate_native = (\<lambda>m c fd conf. Inr 8),
      native_execute = (\<lambda>nf r it rd. Inr (next_stream 2 it))\<rparr>"

definition failing_engines :: "nat engines" where
  "failing_engines =
     \<lparr>setup_storlet_gateway = (\<lambda>conf rd. Inr 7),
      execute_storlet = (\<lambda>gw r fd it. Inl (Raised ''IOError'')),
      instantiate_native = (\<lambda>m c fd conf. Inr 8),
      native_execute = (\<lambda>nf r it rd. Inr (next_stream 2 it))\<rparr>"

definition example_request :: "string \<Rightarrow> nat request" where
  "example_request path =
     \<lparr>req_path = path, req_method = ''PUT'', req_headers = Map.empty,
      req_environ = [''CONTENT_LENGTH'' \<mapsto> EStr ''42'', ''wsgi.input'' \<mapsto> EStream (Some 0)]\<rparr>"

definition example_response :: "nat response" where
  "example_response = \<lparr>resp_headers = Map.empty, resp_app_iter = Some 0\<rparr>"

definition example_handler :: "nat handler" where
  "example_handler =
     \<lparr>h_request = example_request ''/v1/AUTH_test/c/o'', h_api_version = Some ''v1'',
      h_account = Some ''AUTH_test'', h_container = Some ''c'', h_obj = Some ''o'',
      h_server = Some ''proxy'',
      h_sds_containers = [Some ''storlet'', Some ''dependency'', Some ''docker_images''],
      h_app = 9, h_conf = example_conf,
      h_filter_control = CrystalFilterControl example_conf, h_method = ''put''\<rparr>"

definition compress :: filter_data where
  "compress =
     [(''execution_server'', ''proxy''), (''type'', ''storlet''),
      (''main'', ''compress-1.0.jar''), (''when'', ''on_pre_put'')]"

definition encrypt :: filter_data where
  "encrypt =
     [(''execution_server'', ''proxy''), (''type'', ''native''),
      (''main'', ''crypto.Encrypt''), (''when'', ''on_pre_put'')]"

definition audit :: filter_data where
  "audit =
     [(''execution_server'', ''object''), (''type'', ''storlet''),
      (''main'', ''audit-1.0.jar''), (''when'', ''on_pre_put'')]"

definition filterA :: filter_data where
  "filterA =
     [(''execution_server'', ''object''), (''type'', ''storlet''),
      (''main'', ''filterA''), (''when'', ''on_pre_put'')]"

definition example_filters :: filter_list where
  "example_filters = [(3, audit), (1, compress), (2, encrypt)]"

section \<open>Properties of the loop\<close>

lemma update_fresh: "k \<notin> fst ` set al \<Longrightarrow> AList.update k v al = al @ [(k, v)]"
  by (induction al) auto

lemma finish_call_None:
  "finish_call key fd res st = (st', None) \<Longrightarrow>
   \<exists>out. res = Inr out \<and>
     st' = st\<lparr>invoked := invoked st @
              [\<lparr>c_key = key, c_filter = fd, c_input = app_iter st, c_result = Inr out\<rparr>],
            app_iter := out, filter_executed := True\<rparr>"
  by (auto simp: finish_call_def record_call_def split: sum.splits)

lemma finish_call_Some:
  "finish_call key fd res st = (st', Some e) \<Longrightarrow>
   res = Inl e \<and>
     st' = st\<lparr>invoked := invoked st @
              [\<lparr>c_key = key, c_filter = fd, c_input = app_iter st, c_result = Inl e\<rparr>]\<rparr>"
  by (auto simp: finish_call_def record_call_def split: sum.splits)



lemma loop_body_None:
  assumes "loop_body eng fc rd rr d key st = (st', None)"
  obtains fd s where "map_of d key = Some fd" and "map_of fd ''execution_server'' = Some s"
    and "Some s = fc_server fc \<Longrightarrow>
         \<exists>out. invoked st' = invoked st @
                 [\<lparr>c_key = key, c_filter = fd, c_input = app_iter st, c_result = Inr out\<rparr>] \<and>
             app_iter st' = out \<and> filter_executed st' \<and>
             on_other_server st' = on_other_server st"
    and "Some s \<noteq> fc_server fc \<Longrightarrow>
         invoked st' = invoked st \<and> app_iter st' = app_iter st \<and>
         filter_executed st' = filter_executed st \<and>
         on_other_server st' = AList.update key fd (on_other_server st)"
proof -
  from assms obtain fd where fd: "map_of d key = Some fd"
    by (auto simp: loop_body_def split: option.splits)
  from assms fd obtain s where s: "map_of fd ''execution_server'' = Some s"
    by (auto simp: loop_body_def split: option.splits)
  have A: "\<exists>out. invoked st' = invoked st @
                 [\<lparr>c_key = key, c_filter = fd, c_input = app_iter st, c_result = Inr out\<rparr>] \<and>
             app_iter st' = out \<and> filter_executed st' \<and>
             on_other_server st' = on_other_server st" if "Some s = fc_server fc"
    using assms fd s that
    by (auto simp: loop_body_def split: option.splits if_splits sum.splits
        dest!: finish_call_None)
  have B: "invoked st' = invoked st \<and> app_iter st' = app_iter st \<and>
         filter_executed st' = filter_executed st \<and>
         on_other_server st' = AList.update key fd (on_other_server st)"
    if "Some s \<noteq> fc_server fc"
    using assms fd s that by (auto simp: loop_body_def)
  from fd s A B that show thesis by blast
qed

lemma loop_body_Some:
  assumes "loop_body eng fc rd rr d key st = (st', Some e)"
  shows "on_other_server st' = on_other_server st \<and> app_iter st' = app_iter st \<and>
     filter_executed st' = filter_executed st \<and>
     (invoked st' = invoked st \<or>
      (\<exists>fd. map_of d key = Some fd \<and> is_local fc fd \<and> invoked st' = invoked st @
         [\<lparr>c_key = key, c_filter = fd, c_input = app_iter st, c_result = Inl e\<rparr>]))"
proof (cases "map_of d key")
  case None
  with assms show ?thesis by (auto simp: loop_body_def)
next
  case (Some fd)
  show ?thesis
  proof (cases "map_of fd ''execution_server''")
    case None
    with assms Some show ?thesis by (auto simp: loop_body_def)
  next
    case (Some s)
    with assms \<open>map_of d key = Some fd\<close> show ?thesis
      by (auto simp: loop_body_def is_local_def split: option.splits if_splits sum.splits
        dest!: finish_call_Some)
  qed
qed


lemma for_keys_Cons_None:
  "for_keys body (k # ks) st = (st', None) \<Longrightarrow>
   \<exists>st1. body k st = (st1, None) \<and> for_keys body ks st1 = (st', None)"
  by (auto split: prod.splits option.splits)

lemma for_keys_Cons_Some:
  "for_keys body (k # ks) st = (st', Some e) \<Longrightarrow>
   body k st = (st', Some e) \<or>
   (\<exists>st1. body k st = (st1, None) \<and> for_keys body ks st1 = (st', Some e))"
  by (auto split: prod.splits option.splits)

lemma for_keys_calls:
  assumes "for_keys (loop_body eng fc rd rr d) ks st = (st', None)"
  shows "\<exists>calls. invoked st' = invoked st @ calls \<and>
     map c_key calls = filter (local_key fc d) ks \<and>
     (\<forall>c\<in>set calls. map_of d (c_key c) = Some (c_filter c) \<and> succeeded c) \<and>
     chained (app_iter st) calls \<and>
     app_iter st' = final_stream (app_iter st) calls \<and>
     filter_executed st' = (filter_executed st \<or> calls \<noteq> [])"
  using assms
proof (induction ks arbitrary: st)
  case Nil
  then show ?case by simp
next
  case (Cons k ks)
  from for_keys_Cons_None[OF Cons.prems] obtain st1
    where b: "loop_body eng fc rd rr d k st = (st1, None)"
      and r: "for_keys (loop_body eng fc rd rr d) ks st1 = (st', None)"
    by blast
  from Cons.IH[OF r] obtain calls where IH:
    "invoked st' = invoked st1 @ calls"
    "map c_key calls = filter (local_key fc d) ks"
    "\<forall>c\<in>set calls. map_of d (c_key c) = Some (c_filter c) \<and> succeeded c"
    "chained (app_iter st1) calls"
    "app_iter st' = final_stream (app_iter st1) calls"
    "filter_executed st' = (filter_executed st1 \<or> calls \<noteq> [])"
    by blast
  from b show ?case
  proof (rule loop_body_None)
    fix fd s
    assume fd: "map_of d k = Some fd" and s: "map_of fd ''execution_server'' = Some s"
      and A: "Some s = fc_server fc \<Longrightarrow>
         \<exists>out. invoked st1 = invoked st @
                 [\<lparr>c_key = k, c_filter = fd, c_input = app_iter st, c_result = Inr out\<rparr>] \<and>
             app_iter st1 = out \<and> filter_executed st1 \<and>
             on_other_server st1 = on_other_server st"
      and B: "Some s \<noteq> fc_server fc \<Longrightarrow>
         invoked st1 = invoked st \<and> app_iter st1 = app_iter st \<and>
         filter_executed st1 = filter_executed st \<and>
         on_other_server st1 = AList.update k fd (on_other_server st)"
    have lk: "local_key fc d k = (Some s = fc_server fc)"
      by (simp add: local_key_def is_local_def fd s)
    show ?thesis
    proof (cases "Some s = fc_server fc")
      case True
      from A[OF True] obtain out where o:
        "invoked st1 = invoked st @
           [\<lparr>c_key = k, c_filter = fd, c_input = app_iter st, c_result = Inr out\<rparr>]"
        "app_iter st1 = out" "filter_executed st1"
        by blast
      let ?c = "\<lparr>c_key = k, c_filter = fd, c_input = app_iter st, c_result = Inr out\<rparr>"
      have "invoked st' = invoked st @ (?c # calls)" using IH(1) o(1) by simp
      moreover have "map c_key (?c # calls) = filter (local_key fc d) (k # ks)"
        using IH(2) lk True by simp
      moreover have "\<forall>c\<in>set (?c # calls). map_of d (c_key c) = Some (c_filter c) \<and> succeeded c"
        using IH(3) fd by (simp add: succeeded_def)
      moreover have "chained (app_iter st) (?c # calls)" using IH(4) o(2) by simp
      moreover have "app_iter st' = final_stream (app_iter st) (?c # calls)"
        using IH(5) o(2) by simp
      moreover have "filter_executed st' = (filter_executed st \<or> ?c # calls \<noteq> [])"
        using IH(6) o(3) by simp
      ultimately show ?thesis by blast
    next
      case False
      from B[OF False] IH lk False show ?thesis by auto
    qed
  qed
qed

lemma for_keys_delegated:
  assumes "for_keys (loop_body eng fc rd rr d) ks st = (st', None)"
    and "distinct ks" and "set ks \<inter> fst ` set (on_other_server st) = {}"
  shows "map fst (on_other_server st') =
       map fst (on_other_server st) @ filter (\<lambda>k. \<not> local_key fc d k) ks \<and>
     set (on_other_server st') \<subseteq> set (on_other_server st) \<union> {(k, fd). k \<in> set ks \<and> map_of d k = Some fd}"
  using assms
proof (induction ks arbitrary: st)
  case Nil
  then show ?case by simp
next
  case (Cons k ks)
  from for_keys_Cons_None[OF Cons.prems(1)] obtain st1
    where b: "loop_body eng fc rd rr d k st = (st1, None)"
      and r: "for_keys (loop_body eng fc rd rr d) ks st1 = (st', None)"
    by blast
  from b show ?case
  proof (rule loop_body_None)
    fix fd s
    assume fd: "map_of d k = Some fd" and s: "map_of fd ''execution_server'' = Some s"
      and A: "Some s = fc_server fc \<Longrightarrow>
         \<exists>out. invoked st1 = invoked st @
                 [\<lparr>c_key = k, c_filter = fd, c_input = app_iter st, c_result = Inr out\<rparr>] \<and>
             app_iter st1 = out \<and> filter_executed st1 \<and>
             on_other_server st1 = on_other_server st"
      and B: "Some s \<noteq> fc_server fc \<Longrightarrow>
         invoked st1 = invoked st \<and> app_iter st1 = app_iter st \<and>
         filter_executed st1 = filter_executed st \<and>
         on_other_server st1 = AList.update k fd (on_other_server st)"
    have lk: "local_key fc d k = (Some s = fc_server fc)"
      by (simp add: local_key_def is_local_def fd s)
    have fresh: "k \<notin> fst ` set (on_other_server st)" using Cons.prems(3) by auto
    show ?thesis
    proof (cases "Some s = fc_server fc")
      case True
      with A have same: "on_other_server st1 = on_other_server st" by blast
      have "set ks \<inter> fst ` set (on_other_server st1) = {}"
        using Cons.prems(3) same by auto
      from Cons.IH[OF r _ this] Cons.prems(2) same lk True show ?thesis by auto
    next
      case False
      with B have upd: "on_other_server st1 = on_other_server st @ [(k, fd)]"
        using update_fresh[OF fresh] by simp
      have "set ks \<inter> fst ` set (on_other_server st1) = {}"
        using Cons.prems(2,3) upd by auto
      from Cons.IH[OF r _ this] Cons.prems(2) upd lk False fd show ?thesis by auto
    qed
  qed
qed


lemma for_keys_raised:
  assumes "for_keys (loop_body eng fc rd rr d) ks st = (st', Some e)"
  shows "\<exists>calls n. invoked st' = invoked st @ calls \<and>
     (\<forall>c\<in>set (butlast calls). succeeded c) \<and>
     (calls \<noteq> [] \<longrightarrow> succeeded (last calls) \<or> c_result (last calls) = Inl e) \<and>
     map c_key calls = filter (local_key fc d) (take n ks)"
  using assms
proof (induction ks arbitrary: st)
  case Nil
  then show ?case by simp
next
  case (Cons k ks)
  from for_keys_Cons_Some[OF Cons.prems]
  consider (here) "loop_body eng fc rd rr d k st = (st', Some e)"
    | (later) st1 where "loop_body eng fc rd rr d k st = (st1, None)"
        "for_keys (loop_body eng fc rd rr d) ks st1 = (st', Some e)"
    by blast
  then show ?case
  proof cases
    case here
    from loop_body_Some[OF here]
    consider (quiet) "invoked st' = invoked st"
      | (call) fd where "map_of d k = Some fd" "is_local fc fd"
          "invoked st' = invoked st @
             [\<lparr>c_key = k, c_filter = fd, c_input = app_iter st, c_result = Inl e\<rparr>]"
      by blast
    then show ?thesis
    proof cases
      case quiet
      then have "invoked st' = invoked st @ [] \<and>
         (\<forall>c\<in>set (butlast ([]::'a call list)). succeeded c) \<and>
         map c_key ([]::'a call list) = filter (local_key fc d) (take 0 (k # ks))"
        by simp
      then show ?thesis by blast
    next
      case call
      let ?c = "\<lparr>c_key = k, c_filter = fd, c_input = app_iter st, c_result = Inl e\<rparr>"
      have "local_key fc d k" using call(1,2) by (simp add: local_key_def)
      then have "map c_key [?c] = filter (local_key fc d) (take (Suc 0) (k # ks))"
        by simp
      moreover have "\<forall>c\<in>set (butlast [?c]). succeeded c" by simp
      moreover have "[?c] \<noteq> [] \<longrightarrow> succeeded (last [?c]) \<or> c_result (last [?c]) = Inl e"
        by simp
      ultimately show ?thesis using call(3) by blast
    qed
  next
    case later
    from Cons.IH[OF later(2)] obtain calls n where IH:
      "invoked st' = invoked st1 @ calls"
      "\<forall>c\<in>set (butlast calls). succeeded c"
      "calls \<noteq> [] \<longrightarrow> succeeded (last calls) \<or> c_result (last calls) = Inl e"
      "map c_key calls = filter (local_key fc d) (take n ks)"
      by blast
    from later(1) show ?thesis
    proof (rule loop_body_None)
      fix fd s
      assume fd: "map_of d k = Some fd" and s: "map_of fd ''execution_server'' = Some s"
        and A: "Some s = fc_server fc \<Longrightarrow>
           \<exists>out. invoked st1 = invoked st @
                   [\<lparr>c_key = k, c_filter = fd, c_input = app_iter st, c_result = Inr out\<rparr>] \<and>
               app_iter st1 = out \<and> filter_executed st1 \<and>
               on_other_server st1 = on_other_server st"
        and B: "Some s \<noteq> fc_server fc \<Longrightarrow>
           invoked st1 = invoked st \<and> app_iter st1 = app_iter st \<and>
           filter_executed st1 = filter_executed st \<and>
           on_other_server st1 = AList.update k fd (on_other_server st)"
      have lk: "local_key fc d k = (Some s = fc_server fc)"
        by (simp add: local_key_def is_local_def fd s)
      show ?thesis
      proof (cases "Some s = fc_server fc")
        case True
        from A[OF True] obtain out where o:
          "invoked st1 = invoked st @
             [\<lparr>c_key = k, c_filter = fd, c_input = app_iter st, c_result = Inr out\<rparr>]"
          by blast
        let ?c = "\<lparr>c_key = k, c_filter = fd, c_input = app_iter st, c_result = Inr out\<rparr>"
        have sc: "succeeded ?c" by (simp add: succeeded_def)
        have "invoked st' = invoked st @ (?c # calls)" using IH(1) o by simp
        moreover have "\<forall>c\<in>set (butlast (?c # calls)). succeeded c" using IH(2) sc by simp
        moreover have "?c # calls \<noteq> [] \<longrightarrow>
            succeeded (last (?c # calls)) \<or> c_result (last (?c # calls)) = Inl e"
          using IH(3) sc by simp
        moreover have "map c_key (?c # calls) = filter (local_key fc d) (take (Suc n) (k # ks))"
          using IH(4) lk True by simp
        ultimately show ?thesis by blast
      next
        case False
        from B[OF False] have "invoked st' = invoked st @ calls" using IH(1) by simp
        moreover have "map c_key calls = filter (local_key fc d) (take (Suc n) (k # ks))"
          using IH(4) lk False by simp
        ultimately show ?thesis using IH(2,3) by blast
      qed
    qed
  qed
qed

lemma filter_loop_empty: "filter_loop eng fc rd rr [] = (initial_state, None)"
  by (simp add: filter_loop_def)

lemma execute_filters_empty:
  "execute_filters eng fc req_resp [] app v a c ob m = (Inr req_resp, [])"
  by (simp add: execute_filters_def filter_loop_empty initial_state_def)

section \<open>Eligibility exclusions\<close>

text \<open>
  Claim C5. A handler whose container is one of its reserved containers, or whose object
  component is empty (Python's \<^verbatim>\<open>None\<close> or the empty string), is not eligible: the
  property \<^verbatim>\<open>is_crystal_valid_request\<close> returns a false value, whatever the tier, the
  account lookup and the reading of its \<^verbatim>\<open>storlet-enabled\<close> flag are.
\<close>

theorem reserved_or_objectless_not_eligible:
  "h_container h \<in> set (h_sds_containers h) \<or> h_obj h = None \<or> h_obj h = Some [] \<Longrightarrow>
   \<not> truthy (is_crystal_valid_request col h)"
  by (auto simp: is_crystal_valid_request_def py_of_str_def Let_def)

theorem reserved_or_objectless_not_eligible_witness:
  "(h_container (example_handler\<lparr>h_container := Some ''storlet''\<rparr>)
      \<in> set (h_sds_containers (example_handler\<lparr>h_container := Some ''storlet''\<rparr>)) \<or>
    h_obj (example_handler\<lparr>h_container := Some ''storlet''\<rparr>) = None \<or>
    h_obj (example_handler\<lparr>h_container := Some ''storlet''\<rparr>) = Some []) \<and>
   \<not> truthy (is_crystal_valid_request example_col
        (example_handler\<lparr>h_container := Some ''storlet''\<rparr>)) \<and>
   truthy (is_crystal_valid_request example_col example_handler)"
proof -
  have h: "h_container (example_handler\<lparr>h_container := Some ''storlet''\<rparr>)
      \<in> set (h_sds_containers (example_handler\<lparr>h_container := Some ''storlet''\<rparr>)) \<or>
    h_obj (example_handler\<lparr>h_container := Some ''storlet''\<rparr>) = None \<or>
    h_obj (example_handler\<lparr>h_container := Some ''storlet''\<rparr>) = Some []"
    by (simp add: example_handler_def)
  have e: "truthy (is_crystal_valid_request example_col example_handler)"
    by code_simp
  from reserved_or_objectless_not_eligible[OF h, of example_col] h e show ?thesis
    by blast
qed

section \<open>Empty filter sets\<close>

text \<open>
  Claim C9. With an empty filter set each of the three hooks, and the controller itself,
  makes no engine invocation and returns the handler, the response or the object it was
  given unchanged, headers included.
\<close>

theorem empty_filter_set_is_identity:
  "apply_filters_on_pre_get eng h [] = (h, None, []) \<and>
   apply_filters_on_post_get eng h resp [] = (Inr resp, []) \<and>
   apply_filters_on_pre_put col eng h [] = (h, None, []) \<and>
   execute_filters eng fc req_resp [] app v a c ob m = (Inr req_resp, [])"
  by (simp add: apply_filters_on_pre_get_def apply_filters_on_post_get_def
      apply_filters_on_pre_put_def execute_filters_empty)

end
